theory Spec2Isabelle
  imports Main "HOL-Library.AList"
begin

section \<open>Strings\<close>

text \<open>
  Python strings are modelled as \<open>string\<close>, one \<open>char\<close> per code point, so
  the strings of the model are those over the code points 0 to 255. The
  classifications below are Python's on all of them: \<open>str.isspace\<close> and
  \<open>str.lower\<close> as Python computes them on each of the 256 code points.
\<close>

definition ord :: "char \<Rightarrow> nat" where
  "ord c = of_char c"

text \<open>
  \<open>str.isspace\<close>: TAB, LF, VT, FF, CR (9 to 13), the separators FS, GS, RS, US
  (28 to 31), SPACE (32), NEXT LINE (133, U+0085) and NO-BREAK SPACE (160,
  U+00A0). These are the characters \<open>str.strip()\<close> removes.
\<close>

definition isspace :: "char \<Rightarrow> bool" where
  "isspace c =
     ((9 \<le> ord c \<and> ord c \<le> 13) \<or> (28 \<le> ord c \<and> ord c \<le> 32) \<or> ord c = 133 \<or> ord c = 160)"

text \<open>
  \<open>str.lower\<close> on one character: the capitals A to Z (65 to 90) and the
  capitals U+00C0 to U+00DE (192 to 222) but for the multiplication sign
  U+00D7 (215) move up by 32; every other character stays.
\<close>

definition lower_char :: "char \<Rightarrow> char" where
  "lower_char c =
     (if (65 \<le> ord c \<and> ord c \<le> 90) \<or> (192 \<le> ord c \<and> ord c \<le> 222 \<and> ord c \<noteq> 215)
      then char_of (ord c + 32) else c)"

text \<open>\<open>s.lower()\<close>\<close>

definition lower :: "string \<Rightarrow> string" where
  "lower s = map lower_char s"

text \<open>
  \<open>s.rstrip(chars)\<close> and \<open>s.strip(chars)\<close>, with the stripped characters given
  as a predicate; \<open>s.lstrip(chars)\<close> is \<open>dropWhile\<close>.
\<close>

definition rstrip_with :: "(char \<Rightarrow> bool) \<Rightarrow> string \<Rightarrow> string" where
  "rstrip_with P s = rev (dropWhile P (rev s))"

definition strip_with :: "(char \<Rightarrow> bool) \<Rightarrow> string \<Rightarrow> string" where
  "strip_with P s = rstrip_with P (dropWhile P s)"

text \<open>\<open>s.strip()\<close>\<close>

definition strip :: "string \<Rightarrow> string" where
  "strip s = strip_with isspace s"

text \<open>The character class \<open>[a-zA-Z0-9]\<close> of the pattern in \<open>normalize_org_name\<close>.\<close>

definition is_alnum :: "char \<Rightarrow> bool" where
  "is_alnum c = ((97 \<le> ord c \<and> ord c \<le> 122) \<or> (65 \<le> ord c \<and> ord c \<le> 90)
                 \<or> (48 \<le> ord c \<and> ord c \<le> 57))"

text \<open>
  \<open>re.sub(r"[C]+", "_", s)\<close> for a character class \<open>C\<close>, given as the predicate
  \<open>P\<close>: matching is leftmost and greedy, so every maximal run of characters of
  the class is replaced by one underscore.
\<close>

function re_sub_runs :: "(char \<Rightarrow> bool) \<Rightarrow> string \<Rightarrow> string" where
  "re_sub_runs P [] = []"
| "re_sub_runs P (c # cs) =
     (if P c then CHR ''_'' # re_sub_runs P (dropWhile P cs)
      else c # re_sub_runs P cs)"
  by pat_completeness auto
termination
  by (relation "measure (\<lambda>(P, s). length s)")
     (auto simp: length_dropWhile_le less_Suc_eq_le)

section \<open>core/database.py: collection names\<close>

definition normalize_org_name :: "string \<Rightarrow> string" where
  "normalize_org_name organization_name =
     (let slug = re_sub_runs (\<lambda>c. \<not> is_alnum c) (lower (strip organization_name));
          stripped = strip_with (\<lambda>c. c = CHR ''_'') slug
      in if stripped = [] then ''org'' else stripped)"

definition build_org_collection_name :: "string \<Rightarrow> string" where
  "build_org_collection_name organization_name = ''org_'' @ normalize_org_name organization_name"

text \<open>
  The naming rule in the words of the specification, to be compared with
  \<open>build_org_collection_name\<close>: fixed prefix, then the lowercased name with
  every maximal run of characters outside \<open>[a-z0-9]\<close> replaced by a single
  underscore, leading and trailing underscores trimmed, and a fixed default
  token when nothing is left.
\<close>

definition is_lower_alnum :: "char \<Rightarrow> bool" where
  "is_lower_alnum c = ((97 \<le> ord c \<and> ord c \<le> 122) \<or> (48 \<le> ord c \<and> ord c \<le> 57))"

definition spec_collection_name :: "string \<Rightarrow> string" where
  "spec_collection_name nm =
     ''org_'' @
     (let trimmed = strip_with (\<lambda>c. c = CHR ''_'')
                      (re_sub_runs (\<lambda>c. \<not> is_lower_alnum c) (lower nm))
      in if trimmed = [] then ''org'' else trimmed)"

section \<open>models/organization.py: request and response schemas\<close>

record OrganizationCreate =
  oc_organization_name :: string
  oc_email :: string
  oc_password :: string

text \<open>
  The length constraints of the schema (\<open>constr(min_length, max_length)\<close>); the
  syntax of \<open>EmailStr\<close> is checked by the validation library and is not modelled.
\<close>

definition valid_OrganizationCreate :: "OrganizationCreate \<Rightarrow> bool" where
  "valid_OrganizationCreate p =
     (3 \<le> length (oc_organization_name p) \<and> length (oc_organization_name p) \<le> 64 \<and>
      8 \<le> length (oc_password p) \<and> length (oc_password p) \<le> 128)"

record OrganizationUpdate =
  ou_organization_name :: "string option"
  ou_email :: "string option"
  ou_password :: "string option"

record OrganizationResponse =
  resp_id :: nat
  resp_organization_name :: string
  resp_email :: string
  resp_collection_name :: string
  resp_created_at :: int
  resp_updated_at :: int

record AdminLoginRequest =
  al_email :: string
  al_password :: string

section \<open>The document store\<close>

text \<open>A document of the master collection \<open>organizations\<close>; \<open>oid\<close> is its \<open>_id\<close>.\<close>

record org_doc =
  oid :: nat
  name :: string
  name_lower :: string
  email :: string
  password_hash :: string
  collection_name :: string
  created_at :: int
  updated_at :: int

text \<open>The write operations the driver is asked to perform, in the order they are performed.\<close>

datatype event =
    CreateCollection string
  | DropCollection string
  | InsertOne nat
  | UpdateOne nat
  | DeleteOne nat
  | DeleteMany string
  | InsertMany string

text \<open>
  The database the service holds: the documents of \<open>organizations\<close>, the other
  collections with their names (the tenant collections, whose documents have
  the abstract type \<open>'d\<close>), the next fresh \<open>_id\<close>, the journal of writes, and the
  outcomes of the coming driver calls (\<open>False\<close>: the call raises and changes
  nothing; an empty list: every call succeeds).
  Tenant collections are named by \<open>build_org_collection_name\<close>, whose results
  start with \<open>org_\<close> and so differ from the name \<open>organizations\<close>.
\<close>

record 'd database =
  organizations :: "org_doc list"
  tenants :: "(string \<times> 'd list) list"
  next_id :: nat
  journal :: "event list"
  faults :: "bool list"

datatype error =
    ValueError string
  | DriverError
  | CollectionInvalid
  | HTTPException nat string

text \<open>
  An awaited computation: it returns a value or raises, and leaves a database
  behind in both cases.
\<close>

type_synonym ('a, 'd) io = "'d database \<Rightarrow> (error + 'a) \<times> 'd database"

definition return :: "'a \<Rightarrow> ('a, 'd) io" where
  "return a db = (Inr a, db)"

definition raise :: "error \<Rightarrow> ('a, 'd) io" where
  "raise e db = (Inl e, db)"

definition await :: "('a, 'd) io \<Rightarrow> ('a \<Rightarrow> ('b, 'd) io) \<Rightarrow> ('b, 'd) io" where
  "await m f db = (case m db of (Inl e, db') \<Rightarrow> (Inl e, db') | (Inr a, db') \<Rightarrow> f a db')"

text \<open>One call of the driver: it consumes the next outcome.\<close>

definition driver :: "('a, 'd) io \<Rightarrow> ('a, 'd) io" where
  "driver m db =
     (case faults db of
        [] \<Rightarrow> m db
      | ok # rest \<Rightarrow>
          if ok then m (db\<lparr>faults := rest\<rparr>)
          else (Inl DriverError, db\<lparr>faults := rest\<rparr>))"

text \<open>\<open>db[n]\<close>: the documents of the collection \<open>n\<close>, when it exists.\<close>

definition collection :: "'d database \<Rightarrow> string \<Rightarrow> 'd list option" where
  "collection db n = map_of (tenants db) n"

definition log_write :: "event \<Rightarrow> 'd database \<Rightarrow> 'd database" where
  "log_write e db = db\<lparr>journal := journal db @ [e]\<rparr>"

subsection \<open>The master collection\<close>

text \<open>\<open>organizations.find_one({"name_lower": n})\<close> and \<open>organizations.find_one({"email": e})\<close>\<close>

definition find_one_name_lower :: "string \<Rightarrow> (org_doc option, 'd) io" where
  "find_one_name_lower n =
     driver (\<lambda>db. (Inr (find (\<lambda>d. name_lower d = n) (organizations db)), db))"

definition find_one_email :: "string \<Rightarrow> (org_doc option, 'd) io" where
  "find_one_email e =
     driver (\<lambda>db. (Inr (find (\<lambda>d. email d = e) (organizations db)), db))"

text \<open>\<open>organizations.insert_one(doc)\<close>: the document gets a fresh \<open>_id\<close>, which is returned.\<close>

definition insert_one :: "org_doc \<Rightarrow> (nat, 'd) io" where
  "insert_one doc = driver (\<lambda>db.
     (Inr (next_id db),
      log_write (InsertOne (next_id db))
        (db\<lparr>organizations := organizations db @ [doc\<lparr>oid := next_id db\<rparr>],
            next_id := Suc (next_id db)\<rparr>)))"

text \<open>The \<open>updates\<close> dictionary of \<open>update_organization\<close>: the keys it may hold.\<close>

record updates =
  set_name :: "string option"
  set_name_lower :: "string option"
  set_collection_name :: "string option"
  set_email :: "string option"
  set_password_hash :: "string option"
  set_updated_at :: "int option"

definition no_updates :: updates where
  "no_updates = \<lparr>set_name = None, set_name_lower = None, set_collection_name = None,
                  set_email = None, set_password_hash = None, set_updated_at = None\<rparr>"

text \<open>\<open>{"$set": updates}\<close> on one document, and \<open>org_doc.update(updates)\<close>.\<close>

definition apply_updates :: "updates \<Rightarrow> org_doc \<Rightarrow> org_doc" where
  "apply_updates u d =
     d\<lparr>name := (case set_name u of Some v \<Rightarrow> v | None \<Rightarrow> name d),
       name_lower := (case set_name_lower u of Some v \<Rightarrow> v | None \<Rightarrow> name_lower d),
       collection_name := (case set_collection_name u of Some v \<Rightarrow> v | None \<Rightarrow> collection_name d),
       email := (case set_email u of Some v \<Rightarrow> v | None \<Rightarrow> email d),
       password_hash := (case set_password_hash u of Some v \<Rightarrow> v | None \<Rightarrow> password_hash d),
       updated_at := (case set_updated_at u of Some v \<Rightarrow> v | None \<Rightarrow> updated_at d)\<rparr>"

fun update_first :: "nat \<Rightarrow> updates \<Rightarrow> org_doc list \<Rightarrow> org_doc list" where
  "update_first i u [] = []"
| "update_first i u (d # ds) =
     (if oid d = i then apply_updates u d # ds else d # update_first i u ds)"

fun delete_first :: "nat \<Rightarrow> org_doc list \<Rightarrow> org_doc list" where
  "delete_first i [] = []"
| "delete_first i (d # ds) = (if oid d = i then ds else d # delete_first i ds)"

text \<open>\<open>organizations.update_one({"_id": i}, {"$set": u})\<close>\<close>

definition update_one :: "nat \<Rightarrow> updates \<Rightarrow> (unit, 'd) io" where
  "update_one i u = driver (\<lambda>db.
     (Inr (), log_write (UpdateOne i) (db\<lparr>organizations := update_first i u (organizations db)\<rparr>)))"

text \<open>\<open>organizations.delete_one({"_id": i})\<close>\<close>

definition delete_one :: "nat \<Rightarrow> (unit, 'd) io" where
  "delete_one i = driver (\<lambda>db.
     (Inr (), log_write (DeleteOne i) (db\<lparr>organizations := delete_first i (organizations db)\<rparr>)))"

subsection \<open>The other collections\<close>

text \<open>\<open>db.list_collection_names()\<close>, as far as the tenant collections go.\<close>

definition db_list_collection_names :: "(string list, 'd) io" where
  "db_list_collection_names = driver (\<lambda>db. (Inr (map fst (tenants db)), db))"

text \<open>\<open>db.create_collection(n)\<close>: the driver refuses a name that exists.\<close>

definition db_create_collection :: "string \<Rightarrow> (unit, 'd) io" where
  "db_create_collection n = driver (\<lambda>db.
     if n \<in> set (map fst (tenants db)) then (Inl CollectionInvalid, db)
     else (Inr (), log_write (CreateCollection n) (db\<lparr>tenants := tenants db @ [(n, [])]\<rparr>)))"

text \<open>\<open>db.drop_collection(n)\<close> and \<open>db[n].drop()\<close>: dropping a missing collection does nothing.\<close>

definition db_drop_collection :: "string \<Rightarrow> (unit, 'd) io" where
  "db_drop_collection n = driver (\<lambda>db.
     (Inr (), log_write (DropCollection n) (db\<lparr>tenants := AList.delete n (tenants db)\<rparr>)))"

text \<open>\<open>db[n].find().to_list(length=None)\<close>: a missing collection has no documents.\<close>

definition coll_find_to_list :: "string \<Rightarrow> ('d list, 'd) io" where
  "coll_find_to_list n = driver (\<lambda>db.
     (Inr (case collection db n of None \<Rightarrow> [] | Some ds \<Rightarrow> ds), db))"

text \<open>\<open>db[n].delete_many({})\<close>: every document goes, the collection stays.\<close>

definition coll_delete_many :: "string \<Rightarrow> (unit, 'd) io" where
  "coll_delete_many n = driver (\<lambda>db.
     (Inr (), log_write (DeleteMany n)
        (case collection db n of
           None \<Rightarrow> db
         | Some ds \<Rightarrow> db\<lparr>tenants := AList.update n [] (tenants db)\<rparr>)))"

text \<open>\<open>db[n].insert_many(docs)\<close>: the documents are appended, a missing collection is created.\<close>

definition coll_insert_many :: "string \<Rightarrow> 'd list \<Rightarrow> (unit, 'd) io" where
  "coll_insert_many n docs = driver (\<lambda>db.
     (Inr (), log_write (InsertMany n)
        (db\<lparr>tenants :=
             AList.update n ((case collection db n of None \<Rightarrow> [] | Some ds \<Rightarrow> ds) @ docs)
               (tenants db)\<rparr>)))"

section \<open>utils/security.py: the credential hasher\<close>

text \<open>
  Modelled from the spec: \<open>PasswordHasher\<close> (\<open>app/utils/security.py\<close>) is not among
  the sources. Its two operations are taken as parameters: \<open>hash_password\<close>
  returns a hash string (any function, which covers every salt a call may
  draw, as each operation hashes at most once), and \<open>verify_password\<close> returns a
  truth value and never raises.
\<close>

record hasher =
  hash_password :: "string \<Rightarrow> string"
  verify_password :: "string \<Rightarrow> string \<Rightarrow> bool"

section \<open>services/organization\_service.py\<close>

definition serialize_org :: "org_doc \<Rightarrow> OrganizationResponse" where
  "serialize_org d =
     \<lparr>resp_id = oid d, resp_organization_name = name d, resp_email = email d,
      resp_collection_name = collection_name d, resp_created_at = created_at d,
      resp_updated_at = updated_at d\<rparr>"

definition ensure_collection_exists :: "string \<Rightarrow> (unit, 'd) io" where
  "ensure_collection_exists cn =
     await db_list_collection_names (\<lambda>existing_collections.
     if cn \<notin> set existing_collections then db_create_collection cn else return ())"

definition drop_collection :: "string \<Rightarrow> (unit, 'd) io" where
  "drop_collection cn =
     await db_list_collection_names (\<lambda>existing_collections.
     if cn \<in> set existing_collections then db_drop_collection cn else return ())"

definition migrate_collection :: "string \<Rightarrow> string \<Rightarrow> (unit, 'd) io" where
  "migrate_collection old_collection_name new_collection_name =
     (if old_collection_name = new_collection_name then return ()
      else
        await (ensure_collection_exists new_collection_name) (\<lambda>_.
        await (coll_find_to_list old_collection_name) (\<lambda>documents.
        await (if documents \<noteq> [] then
                 await (coll_delete_many new_collection_name) (\<lambda>_.
                 coll_insert_many new_collection_name documents)
               else return ()) (\<lambda>_.
        db_drop_collection old_collection_name))))"

text \<open>\<open>now\<close> is the instant \<open>datetime.now(timezone.utc)\<close> returns during the call.\<close>

definition create_organization ::
  "hasher \<Rightarrow> int \<Rightarrow> OrganizationCreate \<Rightarrow> (OrganizationResponse, 'd) io" where
  "create_organization H now payload =
     (let normalized_name = strip (lower (oc_organization_name payload)) in
      await (find_one_name_lower normalized_name) (\<lambda>existing.
      case existing of
        Some found \<Rightarrow> raise (ValueError ''Organization already exists'')
      | None \<Rightarrow>
          (let collection_name = build_org_collection_name (oc_organization_name payload) in
           await (ensure_collection_exists collection_name) (\<lambda>_.
           let password_hash = hash_password H (oc_password payload);
               org_doc = \<lparr>oid = 0,
                          name = oc_organization_name payload,
                          name_lower = normalized_name,
                          email = lower (oc_email payload),
                          password_hash = password_hash,
                          collection_name = collection_name,
                          created_at = now,
                          updated_at = now\<rparr>
           in await (insert_one org_doc) (\<lambda>inserted_id.
              return (serialize_org (org_doc\<lparr>oid := inserted_id\<rparr>)))))))"

definition get_organization :: "string \<Rightarrow> (OrganizationResponse option, 'd) io" where
  "get_organization organization_name =
     (let normalized_name = strip (lower organization_name) in
      await (find_one_name_lower normalized_name) (\<lambda>org_doc.
      case org_doc of
        Some d \<Rightarrow> return (Some (serialize_org d))
      | None \<Rightarrow> return None))"

definition get_organization_by_email :: "string \<Rightarrow> (org_doc option, 'd) io" where
  "get_organization_by_email e = find_one_email (strip (lower e))"

definition update_organization ::
  "hasher \<Rightarrow> int \<Rightarrow> string \<Rightarrow> OrganizationUpdate \<Rightarrow> (OrganizationResponse, 'd) io" where
  "update_organization H now current_org_name payload =
     (let normalized_name = strip (lower current_org_name) in
      await (find_one_name_lower normalized_name) (\<lambda>found.
      case found of
        None \<Rightarrow> raise (ValueError ''Organization not found'')
      | Some org_doc \<Rightarrow>
          (let old_collection_name = collection_name org_doc in
           await
             (case ou_organization_name payload of
                None \<Rightarrow> return (no_updates, None)
              | Some new_name \<Rightarrow>
                  if new_name \<noteq> [] \<and> strip (lower new_name) \<noteq> normalized_name then
                    (let new_normalized = strip (lower new_name) in
                     await (find_one_name_lower new_normalized) (\<lambda>existing.
                     case existing of
                       Some other \<Rightarrow> raise (ValueError ''Organization name already exists'')
                     | None \<Rightarrow>
                         return
                           (no_updates\<lparr>set_name := Some new_name,
                                       set_name_lower := Some new_normalized,
                                       set_collection_name :=
                                         Some (build_org_collection_name new_name)\<rparr>,
                            Some (build_org_collection_name new_name))))
                  else return (no_updates, None))
             (\<lambda>(updates1, new_collection_name).
           let updates2 =
                 (case ou_email payload of
                    None \<Rightarrow> updates1
                  | Some e \<Rightarrow>
                      if e \<noteq> [] then updates1\<lparr>set_email := Some (strip (lower e))\<rparr>
                      else updates1);
               updates3 =
                 (case ou_password payload of
                    None \<Rightarrow> updates2
                  | Some p \<Rightarrow>
                      if p \<noteq> [] then updates2\<lparr>set_password_hash := Some (hash_password H p)\<rparr>
                      else updates2)
           in
           await
             (if updates3 \<noteq> no_updates then
                (let updates4 = updates3\<lparr>set_updated_at := Some now\<rparr> in
                 await (update_one (oid org_doc) updates4) (\<lambda>_.
                 return (apply_updates updates4 org_doc)))
              else return org_doc)
             (\<lambda>org_doc'.
           await
             (case new_collection_name of
                None \<Rightarrow> return ()
              | Some ncn \<Rightarrow>
                  if ncn \<noteq> [] \<and> ncn \<noteq> old_collection_name
                  then migrate_collection old_collection_name ncn
                  else return ())
             (\<lambda>_.
           return (serialize_org org_doc')))))))"

definition delete_organization :: "string \<Rightarrow> (bool, 'd) io" where
  "delete_organization organization_name =
     (let normalized_name = strip (lower organization_name) in
      await (find_one_name_lower normalized_name) (\<lambda>found.
      case found of
        None \<Rightarrow> raise (ValueError ''Organization not found'')
      | Some org_doc \<Rightarrow>
          await (drop_collection (collection_name org_doc)) (\<lambda>_.
          await (delete_one (oid org_doc)) (\<lambda>_.
          return True))))"

section \<open>core/config.py\<close>

record settings =
  secret_key :: string
  access_token_expire_minutes :: int
  jwt_algorithm :: string

section \<open>The token library\<close>

text \<open>
  Modelled from the spec: \<open>jwt.encode\<close> and \<open>jwt.decode\<close> belong to the token
  library, which is not among the sources. The specification has a token
  carry the claims with the instants of issue and expiry under a signature
  made with a symmetric secret and a configured algorithm, and has
  verification fail on a signature that is not valid and on a token that has
  expired. A token is kept as its three parts, the header's algorithm, the
  claims and the signature; the signature of a header and claims under a key
  is computed by a function \<open>mac\<close>, a parameter of the model. Instants are
  whole seconds. Decoding checks, in the library's order: the algorithm is
  one of those allowed, the signature is the one \<open>mac\<close> computes, \<open>iat\<close> does
  not lie in the future, and \<open>exp\<close> lies in the future.
\<close>

datatype claim_value = Str string | NumericDate int

type_synonym claims = "(string \<times> claim_value) list"

record 'sig token =
  tok_alg :: string
  tok_claims :: claims
  tok_signature :: 'sig

datatype jwt_error =
    InvalidAlgorithmError
  | InvalidSignatureError
  | InvalidIssuedAtError
  | ImmatureSignatureError
  | ExpiredSignatureError
  | DecodeError

type_synonym 'sig mac = "string \<Rightarrow> string \<Rightarrow> claims \<Rightarrow> 'sig"

text \<open>Modelled from the spec: issuing signs the claims with the key under the algorithm.\<close>

definition jwt_encode :: "'sig mac \<Rightarrow> claims \<Rightarrow> string \<Rightarrow> string \<Rightarrow> 'sig token" where
  "jwt_encode mac payload key algorithm =
     \<lparr>tok_alg = algorithm, tok_claims = payload, tok_signature = mac algorithm key payload\<rparr>"

text \<open>Modelled from the spec: a token is expired once \<open>exp\<close> is not after the present instant.\<close>

definition validate_exp :: "int \<Rightarrow> claims \<Rightarrow> jwt_error option" where
  "validate_exp now payload =
     (case map_of payload ''exp'' of
        None \<Rightarrow> None
      | Some (Str s) \<Rightarrow> Some DecodeError
      | Some (NumericDate e) \<Rightarrow> if e \<le> now then Some ExpiredSignatureError else None)"

text \<open>Modelled from the spec: the library's check that a token was not issued in the future.\<close>

definition validate_iat :: "int \<Rightarrow> claims \<Rightarrow> jwt_error option" where
  "validate_iat now payload =
     (case map_of payload ''iat'' of
        None \<Rightarrow> None
      | Some (Str s) \<Rightarrow> Some InvalidIssuedAtError
      | Some (NumericDate i) \<Rightarrow> if now < i then Some ImmatureSignatureError else None)"

text \<open>Modelled from the spec: verification returns the claims or fails.\<close>

definition jwt_decode ::
  "'sig mac \<Rightarrow> int \<Rightarrow> 'sig token \<Rightarrow> string \<Rightarrow> string list \<Rightarrow> jwt_error + claims" where
  "jwt_decode mac now tok key algorithms =
     (if tok_alg tok \<notin> set algorithms then Inl InvalidAlgorithmError
      else if tok_signature tok \<noteq> mac (tok_alg tok) key (tok_claims tok)
      then Inl InvalidSignatureError
      else case validate_iat now (tok_claims tok) of
        Some e \<Rightarrow> Inl e
      | None \<Rightarrow>
          (case validate_exp now (tok_claims tok) of
             Some e \<Rightarrow> Inl e
           | None \<Rightarrow> Inr (tok_claims tok)))"

section \<open>utils/jwt\_handler.py\<close>

text \<open>\<open>{**d, **subject}\<close>: the keys of \<open>subject\<close> override those of \<open>d\<close>.\<close>

definition dict_merge :: "claims \<Rightarrow> claims \<Rightarrow> claims" where
  "dict_merge d subject = fold (\<lambda>(k, v). AList.update k v) subject d"

text \<open>
  \<open>now_exp\<close> and \<open>now_iat\<close> are the instants the two calls of
  \<open>datetime.now(timezone.utc)\<close> return.
\<close>

definition create_access_token ::
  "settings \<Rightarrow> 'sig mac \<Rightarrow> int \<Rightarrow> int \<Rightarrow> claims \<Rightarrow> 'sig token" where
  "create_access_token S mac now_exp now_iat subject =
     (let expire_minutes = access_token_expire_minutes S;
          expire = now_exp + 60 * expire_minutes;
          payload = dict_merge [(''exp'', NumericDate expire), (''iat'', NumericDate now_iat)] subject
      in jwt_encode mac payload (secret_key S) (jwt_algorithm S))"

definition decode_token :: "settings \<Rightarrow> 'sig mac \<Rightarrow> int \<Rightarrow> 'sig token \<Rightarrow> jwt_error + claims" where
  "decode_token S mac now tok = jwt_decode mac now tok (secret_key S) [jwt_algorithm S]"

section \<open>utils/dependencies.py\<close>

definition HTTP_401_UNAUTHORIZED :: nat where
  "HTTP_401_UNAUTHORIZED = 401"

definition get_current_admin ::
  "settings \<Rightarrow> 'sig mac \<Rightarrow> int \<Rightarrow> 'sig token option \<Rightarrow> error + claims" where
  "get_current_admin S mac now credentials =
     (case credentials of
        None \<Rightarrow> Inl (HTTPException HTTP_401_UNAUTHORIZED ''Missing authorization header'')
      | Some tok \<Rightarrow>
          (case decode_token S mac now tok of
             Inl exc \<Rightarrow> Inl (HTTPException HTTP_401_UNAUTHORIZED ''Invalid or expired token'')
           | Inr payload \<Rightarrow>
               if map_of payload ''admin_email'' = None \<or> map_of payload ''organization_name'' = None
               then Inl (HTTPException HTTP_401_UNAUTHORIZED
                          ''Token missing required claims (admin_email, organization_name)'')
               else Inr payload))"

section \<open>services/admin\_service.py and routes/admin\_routes.py\<close>

record 'sig TokenResponse =
  access_token :: "'sig token"
  token_type :: string
  tr_admin_email :: string
  tr_organization_name :: string

definition login ::
  "hasher \<Rightarrow> settings \<Rightarrow> 'sig mac \<Rightarrow> int \<Rightarrow> int \<Rightarrow> AdminLoginRequest \<Rightarrow>
   ('sig TokenResponse, 'd) io" where
  "login H S mac now_exp now_iat payload =
     await (find_one_email (strip (lower (al_email payload)))) (\<lambda>found.
     case found of
       None \<Rightarrow> raise (ValueError ''Invalid credentials'')
     | Some org_doc \<Rightarrow>
         if \<not> verify_password H (al_password payload) (password_hash org_doc)
         then raise (ValueError ''Invalid credentials'')
         else
           (let claims = [(''admin_email'', Str (email org_doc)),
                          (''organization_name'', Str (name org_doc))];
                tok = create_access_token S mac now_exp now_iat claims
            in return \<lparr>access_token = tok, token_type = ''bearer'',
                        tr_admin_email = email org_doc,
                        tr_organization_name = name org_doc\<rparr>))"

text \<open>The route turns a \<open>ValueError\<close> of the service into a 401 with the same message.\<close>

definition admin_login ::
  "hasher \<Rightarrow> settings \<Rightarrow> 'sig mac \<Rightarrow> int \<Rightarrow> int \<Rightarrow> AdminLoginRequest \<Rightarrow>
   ('sig TokenResponse, 'd) io" where
  "admin_login H S mac now_exp now_iat payload db =
     (case login H S mac now_exp now_iat payload db of
        (Inl (ValueError msg), db') \<Rightarrow> (Inl (HTTPException HTTP_401_UNAUTHORIZED msg), db')
      | r \<Rightarrow> r)"

section \<open>Example data\<close>

text \<open>A hasher, settings, a signature function and databases for the concrete instances below.\<close>

definition H0 :: hasher where
  "H0 = \<lparr>hash_password = (\<lambda>p. ''h:'' @ p), verify_password = (\<lambda>p h. h = ''h:'' @ p)\<rparr>"

definition S0 :: settings where
  "S0 = \<lparr>secret_key = ''k3y'', access_token_expire_minutes = 60, jwt_algorithm = ''HS256''\<rparr>"

definition mac0 :: "(string \<times> string \<times> claims) mac" where
  "mac0 alg key payload = (alg, key, payload)"

definition db_empty :: "string database" where
  "db_empty = \<lparr>organizations = [], tenants = [], next_id = 0, journal = [], faults = []\<rparr>"

definition p_acme :: OrganizationCreate where
  "p_acme = \<lparr>oc_organization_name = ''Acme, Inc.'', oc_email = ''Admin@acme.io'',
              oc_password = ''s3cretpw''\<rparr>"

definition doc_acme :: org_doc where
  "doc_acme = \<lparr>oid = 0, name = ''Acme, Inc.'', name_lower = ''acme, inc.'',
                email = ''admin@acme.io'', password_hash = ''h:s3cretpw'',
                collection_name = ''org_acme_inc'', created_at = 7, updated_at = 7\<rparr>"

definition doc_bolt :: org_doc where
  "doc_bolt = \<lparr>oid = 1, name = ''Bolt'', name_lower = ''bolt'',
                email = ''root@bolt.io'', password_hash = ''h:boltboltbolt'',
                collection_name = ''org_bolt'', created_at = 8, updated_at = 8\<rparr>"

definition db_acme :: "string database" where
  "db_acme = \<lparr>organizations = [doc_acme],
               tenants = [(''org_acme_inc'', [''invoice-1'', ''invoice-2''])],
               next_id = 1, journal = [], faults = []\<rparr>"

definition db_two :: "string database" where
  "db_two = \<lparr>organizations = [doc_acme, doc_bolt],
              tenants = [(''org_acme_inc'', [''invoice-1'', ''invoice-2'']), (''org_bolt'', [''b1''])],
              next_id = 2, journal = [], faults = []\<rparr>"

definition p_dup :: OrganizationCreate where
  "p_dup = \<lparr>oc_organization_name = ''  ACME, inc. '', oc_email = ''other@acme.io'',
             oc_password = ''anotherpw''\<rparr>"

definition p_bolt :: OrganizationCreate where
  "p_bolt = \<lparr>oc_organization_name = ''Bolt'', oc_email = ''root@bolt.io'',
              oc_password = ''boltboltbolt''\<rparr>"

definition u_noop :: OrganizationUpdate where
  "u_noop = \<lparr>ou_organization_name = Some '' ACME, INC. '', ou_email = None, ou_password = None\<rparr>"

definition u_to_bolt :: OrganizationUpdate where
  "u_to_bolt = \<lparr>ou_organization_name = Some ''BOLT '', ou_email = None, ou_password = None\<rparr>"


definition u_case_only :: OrganizationUpdate where
  "u_case_only = \<lparr>ou_organization_name = Some ''ACME, Inc.'', ou_email = Some ''Boss@Acme.io'',
                   ou_password = Some ''newpassw0rd''\<rparr>"





definition db_acme_flaky :: "string database" where
  "db_acme_flaky = db_acme\<lparr>faults := [True, True, False]\<rparr>"

definition al_unknown :: AdminLoginRequest where
  "al_unknown = \<lparr>al_email = ''nobody@acme.io'', al_password = ''whatever1''\<rparr>"

definition al_wrong :: AdminLoginRequest where
  "al_wrong = \<lparr>al_email = ''admin@acme.io'', al_password = ''wrongpass''\<rparr>"

definition al_good :: AdminLoginRequest where
  "al_good = \<lparr>al_email = '' Admin@Acme.io'', al_password = ''s3cretpw''\<rparr>"

definition tok_acme :: "(string \<times> string \<times> claims) token" where
  "tok_acme = create_access_token S0 mac0 100 100
     [(''admin_email'', Str ''admin@acme.io''), (''organization_name'', Str ''Acme, Inc.'')]"

definition tok_forged :: "(string \<times> string \<times> claims) token" where
  "tok_forged = tok_acme\<lparr>tok_signature := (''HS256'', ''guess'', tok_claims tok_acme)\<rparr>"


text \<open>A registry holding a name with an accented capital, and requests that spell it otherwise.\<close>

definition name_Ecole :: string where
  "name_Ecole = CHR 0xC9 # ''cole''"

definition name_ECOLE :: string where
  "name_ECOLE = CHR 0xC9 # ''COLE''"

definition name_ecole :: string where
  "name_ecole = CHR 0xE9 # ''cole''"

definition doc_ecole :: org_doc where
  "doc_ecole = \<lparr>oid = 0, name = name_Ecole, name_lower = name_ecole,
                 email = ''admin@ecole.fr'', password_hash = ''h:motdepasse'',
                 collection_name = ''org_cole'', created_at = 3, updated_at = 3\<rparr>"

definition db_ecole :: "string database" where
  "db_ecole = \<lparr>organizations = [doc_ecole, doc_bolt],
                tenants = [(''org_cole'', [''e1'']), (''org_bolt'', [''b1''])],
                next_id = 2, journal = [], faults = []\<rparr>"

definition p_ECOLE :: OrganizationCreate where
  "p_ECOLE = \<lparr>oc_organization_name = name_ECOLE @ [CHR 0xA0], oc_email = ''autre@ecole.fr'',
               oc_password = ''motdepasse2''\<rparr>"

definition p_zenith :: OrganizationCreate where
  "p_zenith = \<lparr>oc_organization_name = ''Zenith'', oc_email = CHR 0xC9 # ''@zenith.io'',
                oc_password = ''zenithpass''\<rparr>"

definition u_to_ECOLE :: OrganizationUpdate where
  "u_to_ECOLE = \<lparr>ou_organization_name = Some name_ECOLE, ou_email = None, ou_password = None\<rparr>"

definition u_ECOLE_email :: OrganizationUpdate where
  "u_ECOLE_email = \<lparr>ou_organization_name = Some name_ECOLE,
                     ou_email = Some (CHR 0xC9 # ''@ecole.fr''), ou_password = None\<rparr>"

section \<open>The collection-naming rule\<close>

lemma dropWhile_dropWhile_weaker:
  "(\<And>x. P x \<Longrightarrow> Q x) \<Longrightarrow> dropWhile Q (dropWhile P s) = dropWhile Q s"
  by (induction s) auto

lemma re_sub_runs_cong:
  "(\<And>c. c \<in> set s \<Longrightarrow> P c = Q c) \<Longrightarrow> re_sub_runs P s = re_sub_runs Q s"
proof (induction P s rule: re_sub_runs.induct)
  case (1 P)
  then show ?case by simp
next
  case (2 P c cs)
  have eq: "dropWhile P cs = dropWhile Q cs"
    using 2(3) by (intro dropWhile_cong) auto
  show ?case
  proof (cases "P c")
    case True
    then have "Q c" using 2(3) by auto
    moreover have "re_sub_runs P (dropWhile P cs) = re_sub_runs Q (dropWhile P cs)"
      using True 2(3) by (intro 2(1)) (auto dest: set_dropWhileD)
    ultimately show ?thesis using True eq by simp
  next
    case False
    then have "\<not> Q c" using 2(3) by auto
    moreover have "re_sub_runs P cs = re_sub_runs Q cs"
      using False 2(3) by (intro 2(2)) auto
    ultimately show ?thesis using False by simp
  qed
qed

lemma ord_lower_char:
  "ord (lower_char c) =
     (if (65 \<le> ord c \<and> ord c \<le> 90) \<or> (192 \<le> ord c \<and> ord c \<le> 222 \<and> ord c \<noteq> 215)
      then ord c + 32 else ord c)"
  by (auto simp: lower_char_def ord_def)

lemma isspace_lower_char: "isspace (lower_char c) = isspace c"
  by (auto simp: isspace_def ord_lower_char)

lemma is_alnum_lower_char: "is_alnum (lower_char c) = is_lower_alnum (lower_char c)"
  by (auto simp: is_alnum_def is_lower_alnum_def ord_lower_char)

lemma isspace_not_lower_alnum: "isspace c \<Longrightarrow> \<not> is_lower_alnum c"
  by (auto simp: isspace_def is_lower_alnum_def)

lemma underscore_not_lower_alnum: "\<not> is_lower_alnum (CHR ''_'')"
  by (simp add: is_lower_alnum_def ord_def)

lemma lower_strip_commute: "lower (strip s) = strip (lower s)"
  by (simp add: lower_def strip_def strip_with_def rstrip_with_def rev_map dropWhile_map comp_def
      isspace_lower_char)

lemma ltrim_re_sub_runs_dropWhile:
  assumes "P (CHR ''_'')"
  shows "dropWhile (\<lambda>c. c = CHR ''_'') (re_sub_runs P (dropWhile P s)) = re_sub_runs P (dropWhile P s)"
proof (cases "dropWhile P s")
  case Nil
  show ?thesis unfolding Nil by simp
next
  case (Cons d ds)
  then have "\<not> P d" using hd_dropWhile [of P s] by auto
  with assms have "d \<noteq> CHR ''_''" by auto
  with Cons \<open>\<not> P d\<close> show ?thesis by simp
qed

lemma ltrim_re_sub_runs:
  assumes "P (CHR ''_'')"
  shows "dropWhile (\<lambda>c. c = CHR ''_'') (re_sub_runs P s) = re_sub_runs P (dropWhile P s)"
proof (cases s)
  case Nil
  then show ?thesis by simp
next
  case (Cons c cs)
  show ?thesis
  proof (cases "P c")
    case True
    with Cons assms show ?thesis using ltrim_re_sub_runs_dropWhile [of P cs] by simp
  next
    case False
    with assms have "c \<noteq> CHR ''_''" by auto
    with Cons False show ?thesis by simp
  qed
qed

lemma rstrip_with_Cons:
  "rstrip_with Q (c # y) = (if rstrip_with Q y = [] \<and> Q c then [] else c # rstrip_with Q y)"
  by (auto simp: rstrip_with_def dropWhile_append dropWhile_eq_Nil_conv)

lemma rstrip_with_re_sub_runs_append:
  assumes "P (CHR ''_'')"
  shows "(\<forall>c\<in>set w. P c) \<Longrightarrow>
    rstrip_with (\<lambda>c. c = CHR ''_'') (re_sub_runs P (x @ w)) =
    rstrip_with (\<lambda>c. c = CHR ''_'') (re_sub_runs P x)"
proof (induction P x rule: re_sub_runs.induct)
  case (1 P)
  show ?case
  proof (cases w)
    case Nil
    then show ?thesis by simp
  next
    case (Cons a as)
    with 1 have a: "P a" and as: "dropWhile P as = []"
      by (auto simp: dropWhile_eq_Nil_conv)
    show ?thesis unfolding Cons by (simp add: a as rstrip_with_def)
  qed
next
  case (2 P c cs)
  show ?case
  proof (cases "P c")
    case False
    then show ?thesis using 2 by (simp add: rstrip_with_Cons)
  next
    case True
    show ?thesis
    proof (cases "\<forall>x\<in>set cs. P x")
      case all: True
      then have "dropWhile P (cs @ w) = []" "dropWhile P cs = []"
        using 2(3) by (auto simp: dropWhile_eq_Nil_conv)
      then show ?thesis using True by (simp only: re_sub_runs.simps append_Cons if_True)
    next
      case notall: False
      then have "dropWhile P (cs @ w) = dropWhile P cs @ w"
        by (auto simp: dropWhile_append)
      with True 2(1)[OF True 2(3)] show ?thesis by (simp add: rstrip_with_Cons)
    qed
  qed
qed

lemma rstrip_decompose:
  "\<exists>w. u = rstrip_with S u @ w \<and> (\<forall>c\<in>set w. S c)"
proof (intro exI conjI)
  have "u = rev (takeWhile S (rev u) @ dropWhile S (rev u))" by simp
  also have "\<dots> = rev (dropWhile S (rev u)) @ rev (takeWhile S (rev u))" by (rule rev_append)
  finally show "u = rstrip_with S u @ rev (takeWhile S (rev u))" unfolding rstrip_with_def .
  show "\<forall>c\<in>set (rev (takeWhile S (rev u))). S c" by (auto dest: set_takeWhileD)
qed

lemma strip_with_re_sub_runs_strip:
  assumes sub: "\<And>c. S c \<Longrightarrow> P c" and us: "P (CHR ''_'')"
  shows "strip_with (\<lambda>c. c = CHR ''_'') (re_sub_runs P (strip_with S t)) =
         strip_with (\<lambda>c. c = CHR ''_'') (re_sub_runs P t)"
proof -
  define u where "u = dropWhile S t"
  define v where "v = rstrip_with S u"
  obtain w where w: "u = v @ w" "\<forall>c\<in>set w. S c"
    using rstrip_decompose [of u S] unfolding v_def by blast
  have wP: "\<forall>c\<in>set w. P c" using w(2) sub by blast
  have tu: "dropWhile P t = dropWhile P u"
    unfolding u_def using sub by (simp add: dropWhile_dropWhile_weaker)
  have "rstrip_with (\<lambda>c. c = CHR ''_'') (re_sub_runs P (dropWhile P v)) =
        rstrip_with (\<lambda>c. c = CHR ''_'') (re_sub_runs P (dropWhile P u))"
  proof (cases "\<forall>x\<in>set v. P x")
    case True
    then have "dropWhile P v = []" "dropWhile P u = []"
      using wP w(1) by (auto simp: dropWhile_eq_Nil_conv)
    then show ?thesis by (simp only:)
  next
    case False
    then have "dropWhile P u = dropWhile P v @ w"
      using w(1) by (auto simp: dropWhile_append)
    then show ?thesis
      using rstrip_with_re_sub_runs_append [of P w "dropWhile P v"] us wP by simp
  qed
  then show ?thesis
    unfolding strip_with_def ltrim_re_sub_runs [of P, OF us] tu
    by (simp add: u_def v_def)
qed

lemma build_org_collection_name_eq_spec: "build_org_collection_name nm = spec_collection_name nm"
proof -
  let ?Pc = "\<lambda>c. \<not> is_alnum c" and ?Ps = "\<lambda>c. \<not> is_lower_alnum c"
  have a: "lower (strip nm) = strip_with isspace (lower nm)"
    by (simp only: lower_strip_commute) (simp only: strip_def)
  have b: "re_sub_runs ?Pc (lower (strip nm)) = re_sub_runs ?Ps (lower (strip nm))"
    by (rule re_sub_runs_cong) (auto simp: lower_def is_alnum_lower_char)
  have c: "strip_with (\<lambda>c. c = CHR ''_'') (re_sub_runs ?Ps (strip_with isspace (lower nm))) =
      strip_with (\<lambda>c. c = CHR ''_'') (re_sub_runs ?Ps (lower nm))"
    by (rule strip_with_re_sub_runs_strip)
       (simp_all add: isspace_not_lower_alnum underscore_not_lower_alnum)
  have "strip_with (\<lambda>c. c = CHR ''_'') (re_sub_runs ?Pc (lower (strip nm))) =
      strip_with (\<lambda>c. c = CHR ''_'') (re_sub_runs ?Ps (lower nm))"
    unfolding b unfolding a by (rule c)
  then show ?thesis
    by (simp add: build_org_collection_name_def normalize_org_name_def spec_collection_name_def)
qed

lemma build_org_collection_name_normalized:
  assumes "strip (lower a) = strip (lower b)"
  shows "build_org_collection_name a = build_org_collection_name b"
  using assms
  by (simp add: build_org_collection_name_def normalize_org_name_def lower_strip_commute)

lemma collection_name_fixtures:
  "build_org_collection_name '' My Org! '' = ''org_my_org''"
  "build_org_collection_name ''my-org'' = ''org_my_org''"
  "build_org_collection_name ''Acme, Inc.'' = ''org_acme_inc''"
  by code_simp+

text \<open>Folding and trimming beyond ASCII, as Python computes them.\<close>

lemma latin1_folding:
  "lower name_ECOLE = name_ecole"
  "lower name_Ecole = name_ecole"
  "lower [CHR 0xD7, CHR 0xDE, CHR 0xDF, CHR 0xFF] = [CHR 0xD7, CHR 0xFE, CHR 0xDF, CHR 0xFF]"
  "strip (CHR 0xA0 # ''a b'' @ [CHR 0x85, CHR 0xA0]) = ''a b''"
  "build_org_collection_name name_ECOLE = ''org_cole''"
  by code_simp+

text \<open>
  Claim C4. The collection name is a function of the organization name, and it
  is the one the naming rule describes: the prefix \<open>org_\<close>, then the lowercased
  name with every maximal run of characters outside \<open>[a-z0-9]\<close> replaced by one
  underscore, leading and trailing underscores trimmed, and \<open>org\<close> when nothing
  is left. Two names with the same lowercased, trimmed form get the same
  collection name; \<open>" My Org! "\<close> and \<open>"my-org"\<close> both give \<open>org_my_org\<close>, and
  \<open>"Acme, Inc."\<close> gives \<open>org_acme_inc\<close>.
\<close>

theorem C4_collection_name_rule:
  "(\<forall>nm. build_org_collection_name nm = spec_collection_name nm) \<and>
   (\<forall>a b. strip (lower a) = strip (lower b) \<longrightarrow>
      build_org_collection_name a = build_org_collection_name b) \<and>
   build_org_collection_name '' My Org! '' = ''org_my_org'' \<and>
   build_org_collection_name ''my-org'' = ''org_my_org'' \<and>
   build_org_collection_name ''Acme, Inc.'' = ''org_acme_inc''"
  using build_org_collection_name_eq_spec build_org_collection_name_normalized
    collection_name_fixtures
  by blast

theorem C4_collection_name_rule_witness:
  "strip (lower '' My Org '') = strip (lower ''my org'') \<and>
   build_org_collection_name '' My Org '' = build_org_collection_name ''my org''"
proof -
  have h: "strip (lower '' My Org '') = strip (lower ''my org'')"
    by code_simp
  from C4_collection_name_rule h show ?thesis
    by blast
qed

section \<open>A reliable driver\<close>

lemmas io_defs = return_def raise_def await_def

lemma driver_reliable: "faults db = [] \<Longrightarrow> driver m db = m db"
  by (simp add: driver_def)

lemma find_one_name_lower_reliable:
  "faults db = [] \<Longrightarrow>
   find_one_name_lower n db = (Inr (find (\<lambda>d. name_lower d = n) (organizations db)), db)"
  by (simp add: find_one_name_lower_def driver_reliable)

lemma find_one_email_reliable:
  "faults db = [] \<Longrightarrow>
   find_one_email e db = (Inr (find (\<lambda>d. email d = e) (organizations db)), db)"
  by (simp add: find_one_email_def driver_reliable)

lemma find_name_lower_member:
  "d \<in> set ds \<Longrightarrow> name_lower d = n \<Longrightarrow> \<exists>d'. find (\<lambda>d. name_lower d = n) ds = Some d'"
  by (cases "find (\<lambda>d. name_lower d = n) ds") (auto simp: find_None_iff)

text \<open>
  Claim C3. When the lowercased, trimmed name of the request is the
  \<open>name_lower\<close> of a document of the registry, \<open>create_organization\<close> raises
  \<open>ValueError("Organization already exists")\<close> and the database is left as it
  was: no collection is created and no document is inserted.
\<close>

theorem C3_create_existing_name_rejected:
  assumes "faults db = []"
    and "d \<in> set (organizations db)"
    and "name_lower d = strip (lower (oc_organization_name payload))"
  shows "create_organization H now payload db =
           (Inl (ValueError ''Organization already exists''), db)"
proof -
  obtain d' where "find (\<lambda>d. name_lower d = strip (lower (oc_organization_name payload)))
                    (organizations db) = Some d'"
    using find_name_lower_member [OF assms(2,3)] by blast
  then show ?thesis
    using assms(1)
    by (simp add: create_organization_def io_defs Let_def find_one_name_lower_reliable)
qed

lemma ensure_collection_exists_reliable:
  "faults db = [] \<Longrightarrow>
   ensure_collection_exists cn db =
     (Inr (), if cn \<in> fst ` set (tenants db) then db
              else db\<lparr>tenants := tenants db @ [(cn, [])],
                      journal := journal db @ [CreateCollection cn]\<rparr>)"
  by (simp add: ensure_collection_exists_def db_list_collection_names_def db_create_collection_def
      driver_reliable io_defs log_write_def)

lemma insert_one_reliable:
  "faults db = [] \<Longrightarrow>
   insert_one doc db =
     (Inr (next_id db),
      db\<lparr>organizations := organizations db @ [doc\<lparr>oid := next_id db\<rparr>],
         next_id := Suc (next_id db),
         journal := journal db @ [InsertOne (next_id db)]\<rparr>)"
  by (simp add: insert_one_def driver_reliable log_write_def)

lemma find_append_fresh:
  "\<forall>d\<in>set ds. \<not> P d \<Longrightarrow> P x \<Longrightarrow> find P (ds @ [x]) = Some x"
  by (induction ds) auto

text \<open>
  Claim C5, amended. When no document of the registry has the lowercased,
  trimmed name of the request, \<open>create_organization\<close> succeeds, and
  \<open>get_organization\<close> with the same name, run on the database it leaves,
  returns a record whose name is the name given, whose collection name is
  \<open>build_org_collection_name\<close> of that name, and whose email is the email given
  in lower case (the service stores \<open>payload.email.lower()\<close>).
\<close>

theorem C5_create_then_get:
  assumes "faults db = []"
    and "\<forall>d\<in>set (organizations db). name_lower d \<noteq> strip (lower (oc_organization_name payload))"
  shows "fst (create_organization H now payload db) =
           Inr \<lparr>resp_id = next_id db,
                resp_organization_name = oc_organization_name payload,
                resp_email = lower (oc_email payload),
                resp_collection_name = build_org_collection_name (oc_organization_name payload),
                resp_created_at = now, resp_updated_at = now\<rparr> \<and>
         (\<exists>r. fst (get_organization (oc_organization_name payload)
                    (snd (create_organization H now payload db))) = Inr (Some r) \<and>
              resp_organization_name r = oc_organization_name payload \<and>
              resp_email r = lower (oc_email payload) \<and>
              resp_collection_name r =
                build_org_collection_name (oc_organization_name payload))"
proof -
  have none: "find (\<lambda>d. name_lower d = strip (lower (oc_organization_name payload)))
                (organizations db) = None"
    using assms(2) by (simp add: find_None_iff)
  show ?thesis
    using assms none
    by (simp add: create_organization_def get_organization_def io_defs Let_def
        find_one_name_lower_reliable ensure_collection_exists_reliable insert_one_reliable
        find_append_fresh serialize_org_def)
qed


lemma update_one_reliable:
  "faults db = [] \<Longrightarrow>
   update_one i u db =
     (Inr (), db\<lparr>organizations := update_first i u (organizations db),
                journal := journal db @ [UpdateOne i]\<rparr>)"
  by (simp add: update_one_def driver_reliable log_write_def)

text \<open>
  Claim C6. When the request names no new organization name that differs from
  the current one after lowercasing and trimming, no email and no password,
  \<open>update_organization\<close> returns the record found, unchanged, and the database
  is left as it was: nothing is persisted, \<open>updated_at\<close> keeps its value, no
  collection is touched, and no error is raised.
\<close>

theorem C6_update_without_changes:
  assumes "faults db = []"
    and "find (\<lambda>d. name_lower d = strip (lower current_org_name)) (organizations db) = Some d"
    and "\<forall>n. ou_organization_name payload = Some n \<longrightarrow>
           n = [] \<or> strip (lower n) = strip (lower current_org_name)"
    and "\<forall>e. ou_email payload = Some e \<longrightarrow> e = []"
    and "\<forall>p. ou_password payload = Some p \<longrightarrow> p = []"
  shows "update_organization H now current_org_name payload db = (Inr (serialize_org d), db)"
  using assms
  by (auto simp: update_organization_def io_defs Let_def find_one_name_lower_reliable
      split: option.splits)

text \<open>
  Claim C2. In a registry whose \<open>name_lower\<close> values are pairwise distinct,
  renaming organization \<open>a\<close> to a name whose lowercased, trimmed form is the
  \<open>name_lower\<close> of another organization \<open>b\<close> raises
  \<open>ValueError("Organization name already exists")\<close>, and the database is left
  as it was: the record of \<open>a\<close> and every tenant collection are unchanged.
\<close>

theorem C2_rename_to_taken_name_rejected:
  assumes "faults db = []"
    and "distinct (map name_lower (organizations db))"
    and "a \<in> set (organizations db)" and "b \<in> set (organizations db)" and "a \<noteq> b"
    and "name_lower a = strip (lower current_org_name)"
    and "ou_organization_name payload = Some n" and "n \<noteq> []"
    and "name_lower b = strip (lower n)"
  shows "update_organization H now current_org_name payload db =
           (Inl (ValueError ''Organization name already exists''), db)"
proof -
  have ne: "strip (lower n) \<noteq> strip (lower current_org_name)"
    using assms(2-6,9) by (metis distinct_map inj_on_def)
  obtain a' where a': "find (\<lambda>d. name_lower d = strip (lower current_org_name)) (organizations db) = Some a'"
    using find_name_lower_member [OF assms(3,6)] by blast
  obtain b' where b': "find (\<lambda>d. name_lower d = strip (lower n)) (organizations db) = Some b'"
    using find_name_lower_member [OF assms(4,9)] by blast
  show ?thesis
    using assms(1,7,8) ne a' b'
    by (simp add: update_organization_def io_defs Let_def find_one_name_lower_reliable)
qed



lemma db_drop_collection_reliable:
  "faults db = [] \<Longrightarrow>
   db_drop_collection n db =
     (Inr (), db\<lparr>tenants := AList.delete n (tenants db),
                journal := journal db @ [DropCollection n]\<rparr>)"
  by (simp add: db_drop_collection_def driver_reliable log_write_def)



lemma collection_simps:
  "collection (db\<lparr>tenants := t\<rparr>) = map_of t"
  "collection (db\<lparr>journal := j\<rparr>) = collection db"
  "collection (db\<lparr>organizations := os\<rparr>) = collection db"
  by (simp_all add: collection_def fun_eq_iff)

lemma collection_None_iff: "collection db n = None \<longleftrightarrow> n \<notin> fst ` set (tenants db)"
  by (simp add: collection_def map_of_eq_None_iff)






lemma find_Some_member: "find P ds = Some d \<Longrightarrow> d \<in> set ds \<and> P d"
  by (induction ds) (auto split: if_splits)


lemma find_update_first_same:
  "find P ds = Some d \<Longrightarrow> distinct (map oid ds) \<Longrightarrow> (\<And>x. P (apply_updates u x) = P x) \<Longrightarrow>
   find P (update_first (oid d) u ds) = Some (apply_updates u d)"
proof (induction ds)
  case Nil
  then show ?case by simp
next
  case (Cons x xs)
  show ?case
  proof (cases "P x")
    case True
    with Cons.prems(1) have "d = x" by simp
    with True Cons.prems(3) show ?thesis by simp
  next
    case False
    with Cons.prems(1) have f: "find P xs = Some d" by simp
    then have "d \<in> set xs" using find_Some_member by fastforce
    with Cons.prems(2) have "oid x \<noteq> oid d" by (auto simp: image_iff)
    with Cons f False show ?thesis by simp
  qed
qed


lemma find_one_name_lower_frame:
  "find_one_name_lower n db = (x, db1) \<Longrightarrow>
   organizations db1 = organizations db \<and> tenants db1 = tenants db \<and> journal db1 = journal db"
  by (auto simp: find_one_name_lower_def driver_def split: list.splits if_splits)

lemma drop_collection_failure_frame:
  "drop_collection cn db1 = (Inl e, db2) \<Longrightarrow>
   organizations db2 = organizations db1 \<and> tenants db2 = tenants db1 \<and> journal db2 = journal db1"
  by (auto simp: drop_collection_def db_list_collection_names_def db_drop_collection_def
      await_def return_def driver_def log_write_def split: list.splits if_splits)

lemma delete_one_reliable:
  "faults db = [] \<Longrightarrow>
   delete_one i db =
     (Inr (), db\<lparr>organizations := delete_first i (organizations db),
                journal := journal db @ [DeleteOne i]\<rparr>)"
  by (simp add: delete_one_def driver_reliable log_write_def)

lemma drop_collection_reliable:
  "faults db = [] \<Longrightarrow>
   drop_collection cn db =
     (Inr (), if cn \<in> fst ` set (tenants db)
              then db\<lparr>tenants := AList.delete cn (tenants db),
                      journal := journal db @ [DropCollection cn]\<rparr>
              else db)"
  by (simp add: drop_collection_def db_list_collection_names_def io_defs driver_reliable
      db_drop_collection_reliable)

lemma delete_organization_reliable:
  assumes "faults db = []"
    and "find (\<lambda>d. name_lower d = strip (lower organization_name)) (organizations db) = Some d"
  shows "delete_organization organization_name db =
           (Inr True,
            db\<lparr>tenants := AList.delete (collection_name d) (tenants db),
               organizations := delete_first (oid d) (organizations db),
               journal := journal db @
                 (if collection_name d \<in> fst ` set (tenants db)
                  then [DropCollection (collection_name d)] else []) @
                 [DeleteOne (oid d)]\<rparr>)"
proof -
  have "AList.delete (collection_name d) (tenants db) = tenants db"
    if "collection_name d \<notin> fst ` set (tenants db)"
    using that by (induction "tenants db") (auto simp: AList.delete_eq image_iff filter_id_conv)
  then show ?thesis
    using assms
    by (simp add: delete_organization_def io_defs Let_def find_one_name_lower_reliable
        drop_collection_reliable delete_one_reliable)
qed

lemma delete_organization_drop_fails:
  assumes "find_one_name_lower (strip (lower organization_name)) db = (Inr (Some d), db1)"
    and "drop_collection (collection_name d) db1 = (Inl e, db2)"
  shows "delete_organization organization_name db = (Inl e, db2) \<and>
         organizations db2 = organizations db \<and> tenants db2 = tenants db \<and>
         journal db2 = journal db"
  using assms find_one_name_lower_frame [OF assms(1)] drop_collection_failure_frame [OF assms(2)]
  by (simp add: delete_organization_def io_defs Let_def)

lemma delete_organization_not_found:
  assumes "faults db = []"
    and "\<forall>d\<in>set (organizations db). name_lower d \<noteq> strip (lower organization_name)"
  shows "delete_organization organization_name db =
           (Inl (ValueError ''Organization not found''), db)"
proof -
  have "find (\<lambda>d. name_lower d = strip (lower organization_name)) (organizations db) = None"
    using assms(2) by (simp add: find_None_iff)
  then show ?thesis
    using assms(1)
    by (simp add: delete_organization_def io_defs Let_def find_one_name_lower_reliable)
qed

text \<open>
  Claim C7. With a reliable driver, \<open>delete_organization\<close> of an existing
  organization drops its tenant collection first and deletes its record after
  that, as the journal shows. Whenever dropping the collection raises, the
  call raises the same error and the registry is as before: the record
  remains. For a name no record has, the call raises
  \<open>ValueError("Organization not found")\<close> and the database is left as it was.
\<close>

theorem C7_delete_order_and_not_found:
  "(faults db = [] \<and>
    find (\<lambda>d. name_lower d = strip (lower organization_name)) (organizations db) = Some d \<longrightarrow>
      fst (delete_organization organization_name db) = Inr True \<and>
      journal (snd (delete_organization organization_name db)) =
        journal db @
        (if collection_name d \<in> fst ` set (tenants db)
         then [DropCollection (collection_name d)] else []) @
        [DeleteOne (oid d)] \<and>
      collection (snd (delete_organization organization_name db)) (collection_name d) = None \<and>
      organizations (snd (delete_organization organization_name db)) =
        delete_first (oid d) (organizations db)) \<and>
   (find_one_name_lower (strip (lower organization_name)) db = (Inr (Some d), db1) \<and>
    drop_collection (collection_name d) db1 = (Inl e, db2) \<longrightarrow>
      delete_organization organization_name db = (Inl e, db2) \<and>
      organizations db2 = organizations db \<and> journal db2 = journal db) \<and>
   (faults db = [] \<and>
    (\<forall>d\<in>set (organizations db). name_lower d \<noteq> strip (lower organization_name)) \<longrightarrow>
      delete_organization organization_name db =
        (Inl (ValueError ''Organization not found''), db))"
proof (intro conjI impI)
  assume a: "faults db = [] \<and>
    find (\<lambda>d. name_lower d = strip (lower organization_name)) (organizations db) = Some d"
  note r = delete_organization_reliable [of db organization_name d]
  from a r show "fst (delete_organization organization_name db) = Inr True" by simp
  from a r show "journal (snd (delete_organization organization_name db)) =
        journal db @
        (if collection_name d \<in> fst ` set (tenants db)
         then [DropCollection (collection_name d)] else []) @
        [DeleteOne (oid d)]" by simp
  from a r show "collection (snd (delete_organization organization_name db)) (collection_name d) = None"
    by (simp add: collection_def delete_conv')
  from a r show "organizations (snd (delete_organization organization_name db)) =
        delete_first (oid d) (organizations db)" by simp
next
  assume b: "find_one_name_lower (strip (lower organization_name)) db = (Inr (Some d), db1) \<and>
    drop_collection (collection_name d) db1 = (Inl e, db2)"
  note r = delete_organization_drop_fails [of organization_name db d db1 e db2]
  from b r show "delete_organization organization_name db = (Inl e, db2)" by simp
  from b r show "organizations db2 = organizations db" by simp
  from b r show "journal db2 = journal db" by simp
next
  assume "faults db = [] \<and>
    (\<forall>d\<in>set (organizations db). name_lower d \<noteq> strip (lower organization_name))"
  then show "delete_organization organization_name db =
        (Inl (ValueError ''Organization not found''), db)"
    using delete_organization_not_found by blast
qed

text \<open>
  Claim C8. A login whose email matches no organization and a login whose
  email is known but whose password does not verify raise the same error,
  \<open>ValueError("Invalid credentials")\<close>, which the route turns into the same 401
  response in both cases.
\<close>

theorem C8_login_failures_indistinguishable:
  assumes "faults db1 = []"
    and "find (\<lambda>d. email d = strip (lower (al_email p1))) (organizations db1) = None"
    and "faults db2 = []"
    and "find (\<lambda>d. email d = strip (lower (al_email p2))) (organizations db2) = Some d"
    and "\<not> verify_password H (al_password p2) (password_hash d)"
  shows "fst (login H S mac t1 t2 p1 db1) = Inl (ValueError ''Invalid credentials'') \<and>
         fst (login H S mac t3 t4 p2 db2) = Inl (ValueError ''Invalid credentials'') \<and>
         fst (admin_login H S mac t1 t2 p1 db1) =
           Inl (HTTPException HTTP_401_UNAUTHORIZED ''Invalid credentials'') \<and>
         fst (admin_login H S mac t3 t4 p2 db2) =
           Inl (HTTPException HTTP_401_UNAUTHORIZED ''Invalid credentials'')"
  using assms
  by (simp add: login_def admin_login_def io_defs find_one_email_reliable)


lemma login_success:
  assumes "faults db = []"
    and "find (\<lambda>d. email d = strip (lower (al_email payload))) (organizations db) = Some d"
    and "verify_password H (al_password payload) (password_hash d)"
  shows "login H S mac t1 t2 payload db =
           (Inr \<lparr>access_token =
                   create_access_token S mac t1 t2
                     [(''admin_email'', Str (email d)), (''organization_name'', Str (name d))],
                 token_type = ''bearer'', tr_admin_email = email d,
                 tr_organization_name = name d\<rparr>, db)"
  using assms by (simp add: login_def io_defs find_one_email_reliable Let_def)

lemma issued_claims:
  "tok_claims (create_access_token S mac t1 t2
      [(''admin_email'', Str e), (''organization_name'', Str n)]) =
   [(''exp'', NumericDate (t1 + 60 * access_token_expire_minutes S)),
    (''iat'', NumericDate t2), (''admin_email'', Str e), (''organization_name'', Str n)]"
  by (simp add: create_access_token_def jwt_encode_def dict_merge_def Let_def)

lemma issued_token_accepted:
  assumes "t2 \<le> now" and "now < t1 + 60 * access_token_expire_minutes S"
  shows "get_current_admin S mac now
           (Some (create_access_token S mac t1 t2
              [(''admin_email'', Str e), (''organization_name'', Str n)])) =
         Inr [(''exp'', NumericDate (t1 + 60 * access_token_expire_minutes S)),
              (''iat'', NumericDate t2), (''admin_email'', Str e),
              (''organization_name'', Str n)]"
proof -
  let ?tok = "create_access_token S mac t1 t2
      [(''admin_email'', Str e), (''organization_name'', Str n)]"
  have alg: "tok_alg ?tok = jwt_algorithm S"
    and sig: "tok_signature ?tok = mac (jwt_algorithm S) (secret_key S) (tok_claims ?tok)"
    by (simp_all add: create_access_token_def jwt_encode_def Let_def)
  show ?thesis
    using assms
    by (simp add: get_current_admin_def decode_token_def jwt_decode_def alg sig issued_claims
        validate_iat_def validate_exp_def)
qed

lemma bad_signature_rejected:
  assumes "tok_signature tok \<noteq> mac (tok_alg tok) (secret_key S) (tok_claims tok)"
  shows "get_current_admin S mac now (Some tok) =
           Inl (HTTPException HTTP_401_UNAUTHORIZED ''Invalid or expired token'')"
  using assms by (auto simp: get_current_admin_def decode_token_def jwt_decode_def)

lemma other_algorithm_rejected:
  assumes "tok_alg tok \<noteq> jwt_algorithm S"
  shows "get_current_admin S mac now (Some tok) =
           Inl (HTTPException HTTP_401_UNAUTHORIZED ''Invalid or expired token'')"
  using assms by (simp add: get_current_admin_def decode_token_def jwt_decode_def)

lemma expired_rejected:
  assumes "map_of (tok_claims tok) ''exp'' = Some (NumericDate ex)" and "ex \<le> now"
  shows "get_current_admin S mac now (Some tok) =
           Inl (HTTPException HTTP_401_UNAUTHORIZED ''Invalid or expired token'')"
  using assms
  by (simp add: get_current_admin_def decode_token_def jwt_decode_def validate_exp_def
      split: option.splits)

text \<open>
  Claim C9. The token a successful login issues for an organization's admin
  email and name, presented between its issue and its expiry, passes
  \<open>get_current_admin\<close>, and the claims returned hold that admin email and that
  organization name. A token whose signature is not the one computed from its
  header and claims under the secret key, and a token whose \<open>exp\<close> is not in
  the future, are rejected with a 401.
\<close>

theorem C9_token_round_trip:
  "(faults db = [] \<and>
    find (\<lambda>d. email d = strip (lower (al_email payload))) (organizations db) = Some d \<and>
    verify_password H (al_password payload) (password_hash d) \<and>
    t2 \<le> now \<and> now < t1 + 60 * access_token_expire_minutes S \<longrightarrow>
      (\<exists>resp cs. fst (login H S mac t1 t2 payload db) = Inr resp \<and>
         tr_admin_email resp = email d \<and> tr_organization_name resp = name d \<and>
         get_current_admin S mac now (Some (access_token resp)) = Inr cs \<and>
         map_of cs ''admin_email'' = Some (Str (email d)) \<and>
         map_of cs ''organization_name'' = Some (Str (name d)))) \<and>
   (tok_signature tok \<noteq> mac (tok_alg tok) (secret_key S) (tok_claims tok) \<longrightarrow>
      get_current_admin S mac now (Some tok) =
        Inl (HTTPException HTTP_401_UNAUTHORIZED ''Invalid or expired token'')) \<and>
   (map_of (tok_claims tok') ''exp'' = Some (NumericDate ex) \<and> ex \<le> now \<longrightarrow>
      get_current_admin S mac now (Some tok') =
        Inl (HTTPException HTTP_401_UNAUTHORIZED ''Invalid or expired token''))"
proof (intro conjI impI)
  assume a: "faults db = [] \<and>
    find (\<lambda>d. email d = strip (lower (al_email payload))) (organizations db) = Some d \<and>
    verify_password H (al_password payload) (password_hash d) \<and>
    t2 \<le> now \<and> now < t1 + 60 * access_token_expire_minutes S"
  then have l: "login H S mac t1 t2 payload db =
           (Inr \<lparr>access_token =
                   create_access_token S mac t1 t2
                     [(''admin_email'', Str (email d)), (''organization_name'', Str (name d))],
                 token_type = ''bearer'', tr_admin_email = email d,
                 tr_organization_name = name d\<rparr>, db)"
    by (simp add: login_success)
  from a have g: "get_current_admin S mac now
           (Some (create_access_token S mac t1 t2
              [(''admin_email'', Str (email d)), (''organization_name'', Str (name d))])) =
         Inr [(''exp'', NumericDate (t1 + 60 * access_token_expire_minutes S)),
              (''iat'', NumericDate t2), (''admin_email'', Str (email d)),
              (''organization_name'', Str (name d))]"
    by (simp add: issued_token_accepted)
  show "\<exists>resp cs. fst (login H S mac t1 t2 payload db) = Inr resp \<and>
         tr_admin_email resp = email d \<and> tr_organization_name resp = name d \<and>
         get_current_admin S mac now (Some (access_token resp)) = Inr cs \<and>
         map_of cs ''admin_email'' = Some (Str (email d)) \<and>
         map_of cs ''organization_name'' = Some (Str (name d))"
    unfolding l using g by simp
next
  assume "tok_signature tok \<noteq> mac (tok_alg tok) (secret_key S) (tok_claims tok)"
  then show "get_current_admin S mac now (Some tok) =
        Inl (HTTPException HTTP_401_UNAUTHORIZED ''Invalid or expired token'')"
    by (rule bad_signature_rejected)
next
  assume "map_of (tok_claims tok') ''exp'' = Some (NumericDate ex) \<and> ex \<le> now"
  then show "get_current_admin S mac now (Some tok') =
        Inl (HTTPException HTTP_401_UNAUTHORIZED ''Invalid or expired token'')"
    using expired_rejected by blast
qed

lemma map_update_first:
  "(\<And>x. f (apply_updates u x) = f x) \<Longrightarrow> map f (update_first i u ds) = map f ds"
  by (induction ds) auto

lemma update_first_no_updates:
  "apply_updates u = (\<lambda>d. d) \<Longrightarrow> update_first i u ds = ds"
  by (induction ds) auto

text \<open>
  Claim C10. When the new name of the request has the same lowercased, trimmed
  form as the current name, the change of name is dropped: name, \<open>name_lower\<close>
  and \<open>collection_name\<close> of every record stay as they were, no collection is
  touched and the journal shows no migration. An email and a password given in
  the same request are stored all the same, with \<open>updated_at\<close> set to the
  instant of the call.
\<close>

theorem C10_case_only_rename_discarded:
  assumes rel: "faults db = []"
    and ids: "distinct (map oid (organizations db))"
    and found: "find (\<lambda>d. name_lower d = strip (lower current_org_name)) (organizations db) = Some d"
    and nm: "ou_organization_name payload = Some n"
    and same: "strip (lower n) = strip (lower current_org_name)"
    and em: "new_email = (case ou_email payload of None \<Rightarrow> None
                | Some e \<Rightarrow> if e \<noteq> [] then Some (strip (lower e)) else None)"
    and pw: "new_hash = (case ou_password payload of None \<Rightarrow> None
                | Some p \<Rightarrow> if p \<noteq> [] then Some (hash_password H p) else None)"
    and d': "d' = (if new_email = None \<and> new_hash = None then d
                   else d\<lparr>email := (case new_email of Some v \<Rightarrow> v | None \<Rightarrow> email d),
                          password_hash := (case new_hash of Some v \<Rightarrow> v | None \<Rightarrow> password_hash d),
                          updated_at := now\<rparr>)"
    and r: "r = update_organization H now current_org_name payload db"
  shows "fst r = Inr (serialize_org d') \<and>
         find (\<lambda>d. name_lower d = strip (lower current_org_name)) (organizations (snd r)) = Some d' \<and>
         name d' = name d \<and> name_lower d' = name_lower d \<and>
         collection_name d' = collection_name d \<and>
         map name (organizations (snd r)) = map name (organizations db) \<and>
         map name_lower (organizations (snd r)) = map name_lower (organizations db) \<and>
         map collection_name (organizations (snd r)) = map collection_name (organizations db) \<and>
         tenants (snd r) = tenants db \<and>
         journal (snd r) =
           journal db @ (if new_email = None \<and> new_hash = None then [] else [UpdateOne (oid d)])"
proof (cases "new_email = None \<and> new_hash = None")
  case True
  then have "d' = d" by (simp add: d')
  moreover have "r = (Inr (serialize_org d), db)"
    unfolding r using rel found nm same True em pw
    by (auto simp: update_organization_def io_defs Let_def find_one_name_lower_reliable
        split: option.splits if_splits)
  ultimately show ?thesis using True found by simp
next
  case False
  define u where "u = \<lparr>set_name = None, set_name_lower = None, set_collection_name = None,
      set_email = new_email, set_password_hash = new_hash, set_updated_at = Some now\<rparr>"
  have ap: "apply_updates u d = d'"
    using False by (auto simp: apply_updates_def u_def d')
  have res: "r = (Inr (serialize_org (apply_updates u d)),
                  db\<lparr>organizations := update_first (oid d) u (organizations db),
                     journal := journal db @ [UpdateOne (oid d)]\<rparr>)"
    unfolding r using rel found nm same False em pw
    by (auto simp: update_organization_def io_defs Let_def find_one_name_lower_reliable
        update_one_reliable no_updates_def u_def
        split: option.splits if_splits)
  have f: "find (\<lambda>d. name_lower d = strip (lower current_org_name))
             (update_first (oid d) u (organizations db)) = Some (apply_updates u d)"
    using found ids by (rule find_update_first_same) (simp add: apply_updates_def u_def)
  have frame: "map name (update_first (oid d) u (organizations db)) = map name (organizations db)"
    "map name_lower (update_first (oid d) u (organizations db)) =
       map name_lower (organizations db)"
    "map collection_name (update_first (oid d) u (organizations db)) =
       map collection_name (organizations db)"
    by (rule map_update_first, simp add: apply_updates_def u_def)+
  have keep: "name d' = name d" "name_lower d' = name_lower d"
    "collection_name d' = collection_name d"
    by (simp_all add: d')
  show ?thesis
    unfolding res using f frame keep False by (simp add: ap)
qed

section \<open>Instances\<close>

text \<open>Instances of C3: a second request for the organization of \<open>db_acme\<close>, in other casing, and one for that of \<open>db_ecole\<close>, in capitals and with a trailing no-break space.\<close>

theorem C3_witness:
  "create_organization H0 9 p_dup db_acme =
     (Inl (ValueError ''Organization already exists''), db_acme) \<and>
   create_organization H0 9 p_ECOLE db_ecole =
     (Inl (ValueError ''Organization already exists''), db_ecole)"
proof -
  have h1: "faults db_acme = []" by code_simp
  have h2: "doc_acme \<in> set (organizations db_acme)" by code_simp
  have h3: "name_lower doc_acme = strip (lower (oc_organization_name p_dup))" by code_simp
  have g1: "faults db_ecole = []" by code_simp
  have g2: "doc_ecole \<in> set (organizations db_ecole)" by code_simp
  have g3: "name_lower doc_ecole = strip (lower (oc_organization_name p_ECOLE))" by code_simp
  from C3_create_existing_name_rejected [OF h1 h2 h3, of H0 9]
    C3_create_existing_name_rejected [OF g1 g2 g3, of H0 9]
  show ?thesis by simp
qed

text \<open>Instances of C5, as amended: a new organization added to \<open>db_acme\<close>, and one added to \<open>db_ecole\<close> whose email starts with an accented capital.\<close>

theorem C5_witness:
  "map_sum id (map_option resp_organization_name)
     (fst (get_organization ''Bolt'' (snd (create_organization H0 8 p_bolt db_acme)))) =
     Inr (Some ''Bolt'') \<and>
   map_sum id (map_option resp_email)
     (fst (get_organization ''Bolt'' (snd (create_organization H0 8 p_bolt db_acme)))) =
     Inr (Some ''root@bolt.io'') \<and>
   map_sum id (map_option resp_collection_name)
     (fst (get_organization ''Bolt'' (snd (create_organization H0 8 p_bolt db_acme)))) =
     Inr (Some ''org_bolt'') \<and>
   map_sum id (map_option resp_email)
     (fst (get_organization ''Zenith'' (snd (create_organization H0 8 p_zenith db_ecole)))) =
     Inr (Some (CHR 0xE9 # ''@zenith.io''))"
proof -
  have h1: "faults db_acme = []" by code_simp
  have h2: "\<forall>d\<in>set (organizations db_acme).
              name_lower d \<noteq> strip (lower (oc_organization_name p_bolt))" by code_simp
  have v: "oc_organization_name p_bolt = ''Bolt''"
    "lower (oc_email p_bolt) = ''root@bolt.io''"
    "build_org_collection_name ''Bolt'' = ''org_bolt''" by code_simp+
  have g1: "faults db_ecole = []" by code_simp
  have g2: "\<forall>d\<in>set (organizations db_ecole).
              name_lower d \<noteq> strip (lower (oc_organization_name p_zenith))" by code_simp
  have w: "oc_organization_name p_zenith = ''Zenith''"
    "lower (oc_email p_zenith) = CHR 0xE9 # ''@zenith.io''" by code_simp+
  from C5_create_then_get [OF h1 h2, of H0 8] C5_create_then_get [OF g1 g2, of H0 8] show ?thesis
    by (auto simp: v w)
qed

text \<open>Claim C5 as stated fails for an email with a capital letter: the record returned has the email in lower case.\<close>

theorem C5_counterexample:
  "valid_OrganizationCreate p_acme \<and> organizations db_empty = [] \<and>
   fst (get_organization (oc_organization_name p_acme)
         (snd (create_organization H0 7 p_acme db_empty))) =
     Inr (Some \<lparr>resp_id = 0, resp_organization_name = ''Acme, Inc.'',
                resp_email = ''admin@acme.io'', resp_collection_name = ''org_acme_inc'',
                resp_created_at = 7, resp_updated_at = 7\<rparr>) \<and>
   ''admin@acme.io'' \<noteq> oc_email p_acme"
  by code_simp

text \<open>Instances of C6: requests that repeat the current name in other casing.\<close>

theorem C6_witness:
  "update_organization H0 9 ''Acme, Inc.'' u_noop db_acme = (Inr (serialize_org doc_acme), db_acme) \<and>
   update_organization H0 9 name_ecole u_to_ECOLE db_ecole = (Inr (serialize_org doc_ecole), db_ecole)"
proof -
  have h1: "faults db_acme = []" by code_simp
  have h2: "find (\<lambda>d. name_lower d = strip (lower ''Acme, Inc.'')) (organizations db_acme) =
              Some doc_acme" by code_simp
  have e: "strip (lower '' ACME, INC. '') = strip (lower ''Acme, Inc.'')" by code_simp
  have h3: "\<forall>n. ou_organization_name u_noop = Some n \<longrightarrow>
              n = [] \<or> strip (lower n) = strip (lower ''Acme, Inc.'')"
    using e by (simp add: u_noop_def)
  have h4: "\<forall>e. ou_email u_noop = Some e \<longrightarrow> e = []" by (simp add: u_noop_def)
  have h5: "\<forall>p. ou_password u_noop = Some p \<longrightarrow> p = []" by (simp add: u_noop_def)
  have g1: "faults db_ecole = []" by code_simp
  have g2: "find (\<lambda>d. name_lower d = strip (lower name_ecole)) (organizations db_ecole) =
              Some doc_ecole" by code_simp
  have f: "strip (lower name_ECOLE) = strip (lower name_ecole)" by code_simp
  have g3: "\<forall>n. ou_organization_name u_to_ECOLE = Some n \<longrightarrow>
              n = [] \<or> strip (lower n) = strip (lower name_ecole)"
    using f by (simp add: u_to_ECOLE_def)
  have g4: "\<forall>e. ou_email u_to_ECOLE = Some e \<longrightarrow> e = []" by (simp add: u_to_ECOLE_def)
  have g5: "\<forall>p. ou_password u_to_ECOLE = Some p \<longrightarrow> p = []" by (simp add: u_to_ECOLE_def)
  from C6_update_without_changes [OF h1 h2 h3 h4 h5, of H0 9]
    C6_update_without_changes [OF g1 g2 g3 g4 g5, of H0 9]
  show ?thesis by simp
qed

text \<open>Instances of C2: renaming the first organization of \<open>db_two\<close> to the name of the second, and the second of \<open>db_ecole\<close> to the name of the first in capitals.\<close>

theorem C2_witness:
  "update_organization H0 9 ''Acme, Inc.'' u_to_bolt db_two =
     (Inl (ValueError ''Organization name already exists''), db_two) \<and>
   update_organization H0 9 ''Bolt'' u_to_ECOLE db_ecole =
     (Inl (ValueError ''Organization name already exists''), db_ecole)"
proof -
  have h1: "faults db_two = []" by code_simp
  have h2: "distinct (map name_lower (organizations db_two))" by code_simp
  have h3: "doc_acme \<in> set (organizations db_two)" by code_simp
  have h4: "doc_bolt \<in> set (organizations db_two)" by code_simp
  have h5: "doc_acme \<noteq> doc_bolt" by code_simp
  have h6: "name_lower doc_acme = strip (lower ''Acme, Inc.'')" by code_simp
  have h7: "ou_organization_name u_to_bolt = Some ''BOLT ''" by code_simp
  have h8: "''BOLT '' \<noteq> []" by simp
  have h9: "name_lower doc_bolt = strip (lower ''BOLT '')" by code_simp
  have g1: "faults db_ecole = []" by code_simp
  have g2: "distinct (map name_lower (organizations db_ecole))" by code_simp
  have g3: "doc_bolt \<in> set (organizations db_ecole)" by code_simp
  have g4: "doc_ecole \<in> set (organizations db_ecole)" by code_simp
  have g5: "doc_bolt \<noteq> doc_ecole" by code_simp
  have g6: "name_lower doc_bolt = strip (lower ''Bolt'')" by code_simp
  have g7: "ou_organization_name u_to_ECOLE = Some name_ECOLE" by code_simp
  have g8: "name_ECOLE \<noteq> []" by code_simp
  have g9: "name_lower doc_ecole = strip (lower name_ECOLE)" by code_simp
  from C2_rename_to_taken_name_rejected [OF h1 h2 h3 h4 h5 h6 h7 h8 h9, of H0 9]
    C2_rename_to_taken_name_rejected [OF g1 g2 g3 g4 g5 g6 g7 g8 g9, of H0 9]
  show ?thesis by simp
qed




text \<open>Instances of C7: a deletion, a deletion whose drop raises, a deletion of an unknown name, and a deletion addressed by the display name of \<open>db_ecole\<close>.\<close>

theorem C7_witness:
  "journal (snd (delete_organization ''Acme, Inc.'' db_acme)) =
     [DropCollection ''org_acme_inc'', DeleteOne 0] \<and>
   organizations (snd (delete_organization ''Acme, Inc.'' db_acme)) = [] \<and>
   delete_organization ''Acme, Inc.'' db_acme_flaky = (Inl DriverError, db_acme) \<and>
   delete_organization ''Nobody'' db_acme = (Inl (ValueError ''Organization not found''), db_acme) \<and>
   journal (snd (delete_organization name_Ecole db_ecole)) =
     [DropCollection ''org_cole'', DeleteOne 0] \<and>
   organizations (snd (delete_organization name_Ecole db_ecole)) = [doc_bolt]"
proof -
  have h1: "faults db_acme = [] \<and>
    find (\<lambda>d. name_lower d = strip (lower ''Acme, Inc.'')) (organizations db_acme) = Some doc_acme"
    by code_simp
  have h2: "find_one_name_lower (strip (lower ''Acme, Inc.'')) db_acme_flaky =
              (Inr (Some doc_acme), db_acme\<lparr>faults := [True, False]\<rparr>) \<and>
            drop_collection (collection_name doc_acme) (db_acme\<lparr>faults := [True, False]\<rparr>) =
              (Inl DriverError, db_acme)"
    by code_simp
  have h3: "faults db_acme = [] \<and>
    (\<forall>d\<in>set (organizations db_acme). name_lower d \<noteq> strip (lower ''Nobody''))"
    by code_simp
  have h4: "faults db_ecole = [] \<and>
    find (\<lambda>d. name_lower d = strip (lower name_Ecole)) (organizations db_ecole) = Some doc_ecole"
    by code_simp
  have v: "journal db_acme = []" "collection_name doc_acme = ''org_acme_inc''" "oid doc_acme = 0"
    "tenants db_acme = [(''org_acme_inc'', [''invoice-1'', ''invoice-2''])]"
    "delete_first 0 (organizations db_acme) = []"
    by code_simp+
  have w: "journal db_ecole = []" "collection_name doc_ecole = ''org_cole''" "oid doc_ecole = 0"
    "tenants db_ecole = [(''org_cole'', [''e1'']), (''org_bolt'', [''b1''])]"
    "delete_first 0 (organizations db_ecole) = [doc_bolt]"
    by code_simp+
  from C7_delete_order_and_not_found [of db_acme "''Acme, Inc.''" doc_acme] h1
  have a: "journal (snd (delete_organization ''Acme, Inc.'' db_acme)) =
             [DropCollection ''org_acme_inc'', DeleteOne 0]"
    "organizations (snd (delete_organization ''Acme, Inc.'' db_acme)) = []"
    by (simp_all add: v)
  from C7_delete_order_and_not_found
         [of db_acme_flaky "''Acme, Inc.''" doc_acme "db_acme\<lparr>faults := [True, False]\<rparr>"
             DriverError db_acme] h2
  have b: "delete_organization ''Acme, Inc.'' db_acme_flaky = (Inl DriverError, db_acme)"
    by blast
  from C7_delete_order_and_not_found [of db_acme "''Nobody''"] h3
  have c: "delete_organization ''Nobody'' db_acme =
             (Inl (ValueError ''Organization not found''), db_acme)"
    by blast
  from C7_delete_order_and_not_found [of db_ecole name_Ecole doc_ecole] h4
  have d: "journal (snd (delete_organization name_Ecole db_ecole)) =
             [DropCollection ''org_cole'', DeleteOne 0]"
    "organizations (snd (delete_organization name_Ecole db_ecole)) = [doc_bolt]"
    by (simp_all add: w)
  from a b c d show ?thesis by simp
qed

text \<open>An instance of C8: an unknown email and a wrong password against \<open>db_acme\<close>.\<close>

theorem C8_witness:
  "fst (admin_login H0 S0 mac0 100 100 al_unknown db_acme) =
     Inl (HTTPException HTTP_401_UNAUTHORIZED ''Invalid credentials'') \<and>
   fst (admin_login H0 S0 mac0 100 100 al_wrong db_acme) =
     Inl (HTTPException HTTP_401_UNAUTHORIZED ''Invalid credentials'') \<and>
   fst (login H0 S0 mac0 100 100 al_unknown db_acme) =
     fst (login H0 S0 mac0 100 100 al_wrong db_acme)"
proof -
  have h1: "faults db_acme = []" by code_simp
  have h2: "find (\<lambda>d. email d = strip (lower (al_email al_unknown))) (organizations db_acme) = None"
    by code_simp
  have h4: "find (\<lambda>d. email d = strip (lower (al_email al_wrong))) (organizations db_acme) =
              Some doc_acme" by code_simp
  have h5: "\<not> verify_password H0 (al_password al_wrong) (password_hash doc_acme)" by code_simp
  from C8_login_failures_indistinguishable [OF h1 h2 h1 h4 h5, of S0 mac0 100 100 100 100]
  show ?thesis by simp
qed

text \<open>Instances of C9: a token issued at 100 and presented at 200, a forged signature, and the same token presented at its expiry.\<close>

theorem C9_witness:
  "(\<exists>resp cs. fst (login H0 S0 mac0 100 100 al_good db_acme) = Inr resp \<and>
      tr_admin_email resp = ''admin@acme.io'' \<and> tr_organization_name resp = ''Acme, Inc.'' \<and>
      get_current_admin S0 mac0 200 (Some (access_token resp)) = Inr cs \<and>
      map_of cs ''admin_email'' = Some (Str ''admin@acme.io'') \<and>
      map_of cs ''organization_name'' = Some (Str ''Acme, Inc.'')) \<and>
   get_current_admin S0 mac0 200 (Some tok_forged) =
     Inl (HTTPException HTTP_401_UNAUTHORIZED ''Invalid or expired token'') \<and>
   get_current_admin S0 mac0 3700 (Some tok_acme) =
     Inl (HTTPException HTTP_401_UNAUTHORIZED ''Invalid or expired token'')"
proof -
  have h1: "faults db_acme = [] \<and>
    find (\<lambda>d. email d = strip (lower (al_email al_good))) (organizations db_acme) = Some doc_acme \<and>
    verify_password H0 (al_password al_good) (password_hash doc_acme) \<and>
    (100::int) \<le> 200 \<and> (200::int) < 100 + 60 * access_token_expire_minutes S0"
    by code_simp
  have h2: "tok_signature tok_forged \<noteq>
              mac0 (tok_alg tok_forged) (secret_key S0) (tok_claims tok_forged)"
    by code_simp
  have h3: "map_of (tok_claims tok_acme) ''exp'' = Some (NumericDate 3700) \<and> (3700::int) \<le> 3700"
    by code_simp
  have v: "email doc_acme = ''admin@acme.io''" "name doc_acme = ''Acme, Inc.''"
    by code_simp+
  from C9_token_round_trip [of db_acme al_good doc_acme H0 100 200 100 S0 mac0] h1
  have a: "\<exists>resp cs. fst (login H0 S0 mac0 100 100 al_good db_acme) = Inr resp \<and>
      tr_admin_email resp = ''admin@acme.io'' \<and> tr_organization_name resp = ''Acme, Inc.'' \<and>
      get_current_admin S0 mac0 200 (Some (access_token resp)) = Inr cs \<and>
      map_of cs ''admin_email'' = Some (Str ''admin@acme.io'') \<and>
      map_of cs ''organization_name'' = Some (Str ''Acme, Inc.'')"
    unfolding v by blast
  from C9_token_round_trip [where tok = tok_forged and mac = mac0 and S = S0 and now = 200] h2
  have b: "get_current_admin S0 mac0 200 (Some tok_forged) =
     Inl (HTTPException HTTP_401_UNAUTHORIZED ''Invalid or expired token'')"
    by blast
  from C9_token_round_trip [where tok' = tok_acme and mac = mac0 and S = S0 and now = 3700
      and ex = 3700] h3
  have c: "get_current_admin S0 mac0 3700 (Some tok_acme) =
     Inl (HTTPException HTTP_401_UNAUTHORIZED ''Invalid or expired token'')"
    by blast
  from a b c show ?thesis by blast
qed

text \<open>Instances of C10: the current name in other casing, with a new email and password, and with a new email alone.\<close>

theorem C10_witness:
  "fst (update_organization H0 9 ''Acme, Inc.'' u_case_only db_acme) =
     Inr \<lparr>resp_id = 0, resp_organization_name = ''Acme, Inc.'', resp_email = ''boss@acme.io'',
          resp_collection_name = ''org_acme_inc'', resp_created_at = 7, resp_updated_at = 9\<rparr> \<and>
   tenants (snd (update_organization H0 9 ''Acme, Inc.'' u_case_only db_acme)) = tenants db_acme \<and>
   journal (snd (update_organization H0 9 ''Acme, Inc.'' u_case_only db_acme)) = [UpdateOne 0] \<and>
   fst (update_organization H0 9 name_ecole u_ECOLE_email db_ecole) =
     Inr \<lparr>resp_id = 0, resp_organization_name = name_Ecole,
          resp_email = CHR 0xE9 # ''@ecole.fr'',
          resp_collection_name = ''org_cole'', resp_created_at = 3, resp_updated_at = 9\<rparr> \<and>
   map name_lower (organizations (snd (update_organization H0 9 name_ecole u_ECOLE_email db_ecole))) =
     [name_ecole, ''bolt'']"
proof -
  have h1: "faults db_acme = []" by code_simp
  have h2: "distinct (map oid (organizations db_acme))" by code_simp
  have h3: "find (\<lambda>d. name_lower d = strip (lower ''Acme, Inc.'')) (organizations db_acme) =
              Some doc_acme" by code_simp
  have h4: "ou_organization_name u_case_only = Some ''ACME, Inc.''" by code_simp
  have h5: "strip (lower ''ACME, Inc.'') = strip (lower ''Acme, Inc.'')" by code_simp
  have h6: "Some ''boss@acme.io'' = (case ou_email u_case_only of None \<Rightarrow> None
                | Some e \<Rightarrow> if e \<noteq> [] then Some (strip (lower e)) else None)" by code_simp
  have h7: "Some ''h:newpassw0rd'' = (case ou_password u_case_only of None \<Rightarrow> None
                | Some p \<Rightarrow> if p \<noteq> [] then Some (hash_password H0 p) else None)" by code_simp
  have v: "serialize_org (doc_acme\<lparr>email := ''boss@acme.io'', password_hash := ''h:newpassw0rd'',
              updated_at := 9\<rparr>) =
           \<lparr>resp_id = 0, resp_organization_name = ''Acme, Inc.'', resp_email = ''boss@acme.io'',
            resp_collection_name = ''org_acme_inc'', resp_created_at = 7, resp_updated_at = 9\<rparr>"
    "journal db_acme = []" "oid doc_acme = 0"
    by code_simp+
  have g1: "faults db_ecole = []" by code_simp
  have g2: "distinct (map oid (organizations db_ecole))" by code_simp
  have g3: "find (\<lambda>d. name_lower d = strip (lower name_ecole)) (organizations db_ecole) =
              Some doc_ecole" by code_simp
  have g4: "ou_organization_name u_ECOLE_email = Some name_ECOLE" by code_simp
  have g5: "strip (lower name_ECOLE) = strip (lower name_ecole)" by code_simp
  have g6: "Some (CHR 0xE9 # ''@ecole.fr'') = (case ou_email u_ECOLE_email of None \<Rightarrow> None
                | Some e \<Rightarrow> if e \<noteq> [] then Some (strip (lower e)) else None)" by code_simp
  have g7: "None = (case ou_password u_ECOLE_email of None \<Rightarrow> None
                | Some p \<Rightarrow> if p \<noteq> [] then Some (hash_password H0 p) else None)" by code_simp
  have w: "serialize_org (doc_ecole\<lparr>email := CHR 0xE9 # ''@ecole.fr'', updated_at := 9\<rparr>) =
           \<lparr>resp_id = 0, resp_organization_name = name_Ecole,
            resp_email = CHR 0xE9 # ''@ecole.fr'',
            resp_collection_name = ''org_cole'', resp_created_at = 3, resp_updated_at = 9\<rparr>"
    "map name_lower (organizations db_ecole) = [name_ecole, ''bolt'']"
    by code_simp+
  from C10_case_only_rename_discarded [OF h1 h2 h3 h4 h5 h6 h7 refl refl, of 9]
  have a: "fst (update_organization H0 9 ''Acme, Inc.'' u_case_only db_acme) =
     Inr \<lparr>resp_id = 0, resp_organization_name = ''Acme, Inc.'', resp_email = ''boss@acme.io'',
          resp_collection_name = ''org_acme_inc'', resp_created_at = 7, resp_updated_at = 9\<rparr>"
    "tenants (snd (update_organization H0 9 ''Acme, Inc.'' u_case_only db_acme)) = tenants db_acme"
    "journal (snd (update_organization H0 9 ''Acme, Inc.'' u_case_only db_acme)) = [UpdateOne 0]"
    by (simp_all add: v)
  from C10_case_only_rename_discarded [OF g1 g2 g3 g4 g5 g6 g7 refl refl, of 9]
  have b: "fst (update_organization H0 9 name_ecole u_ECOLE_email db_ecole) =
     Inr \<lparr>resp_id = 0, resp_organization_name = name_Ecole,
          resp_email = CHR 0xE9 # ''@ecole.fr'',
          resp_collection_name = ''org_cole'', resp_created_at = 3, resp_updated_at = 9\<rparr>"
    "map name_lower (organizations (snd (update_organization H0 9 name_ecole u_ECOLE_email db_ecole))) =
     [name_ecole, ''bolt'']"
    by (simp_all add: w)
  from a b show ?thesis by simp
qed

end
